theory Spec2Isabelle
  imports Main "HOL-Library.Word"
begin

unbundle bit_operations_syntax

section \<open>The 8-bit format: constants and predicates\<close>

text \<open>
  \<^verbatim>\<open>type Float8 uint8\<close>: one byte, sign(1) | exponent(4) | mantissa(3).
  A \<^verbatim>\<open>float32\<close> is modelled by its IEEE 754 binary32 bit pattern, so that
  \<^verbatim>\<open>math.Float32bits\<close> and \<^verbatim>\<open>math.Float32frombits\<close> are the identity.
\<close>

type_synonym Float8 = "8 word"
type_synonym float32 = "32 word"

definition SignMask :: Float8 where "SignMask = 0x80"
definition ExponentMask :: Float8 where "ExponentMask = 0x78"
definition MantissaMask :: Float8 where "MantissaMask = 0x07"
definition MantissaLen :: nat where "MantissaLen = 3"

text \<open>Untyped Go constants; they are used both at \<^verbatim>\<open>int32\<close> and at \<^verbatim>\<open>uint32\<close>.\<close>

definition ExponentBias :: int where "ExponentBias = 7"
definition ExponentMax :: int where "ExponentMax = 15"
definition ExponentMin :: int where "ExponentMin = - 7"
definition Float32Bias :: int where "Float32Bias = 127"

definition PositiveZero :: Float8 where "PositiveZero = 0x00"
definition NegativeZero :: Float8 where "NegativeZero = 0x80"
definition PositiveInfinity :: Float8 where "PositiveInfinity = 0x78"
definition NegativeInfinity :: Float8 where "NegativeInfinity = 0xF8"
definition NaN :: Float8 where "NaN = 0x7F"
definition MaxValue :: Float8 where "MaxValue = 0x7E"
definition MinValue :: Float8 where "MinValue = 0xFE"
definition SmallestPositive :: Float8 where "SmallestPositive = 0x01"

datatype ConversionMode = ModeDefault | ModeStrict | ModeFast

datatype ArithmeticMode = ArithmeticAuto | ArithmeticAlgorithmic | ArithmeticLookup

datatype Float8Error = Float8Error (Op: string) (Value: float32) (Msg: string)

definition ErrNaN :: Float8Error where
  "ErrNaN = Float8Error ''convert'' 0 ''NaN not representable in float8''"

definition IsZero :: "Float8 \<Rightarrow> bool" where
  "IsZero f \<longleftrightarrow> f = PositiveZero \<or> f = NegativeZero"

definition IsInf :: "Float8 \<Rightarrow> bool" where
  "IsInf f \<longleftrightarrow> f = PositiveInfinity \<or> f = NegativeInfinity"

definition IsFinite :: "Float8 \<Rightarrow> bool" where
  "IsFinite f \<longleftrightarrow> drop_bit MantissaLen (f AND ExponentMask) < 0x0F"

definition IsNaN :: "Float8 \<Rightarrow> bool" where
  "IsNaN f \<longleftrightarrow> f AND 0x7F = 0x7F \<and> f AND 0x07 = 0x07"

definition Sign :: "Float8 \<Rightarrow> int" where
  "Sign f = (if IsNaN f then 0
             else if IsZero f then 0
             else if f AND SignMask \<noteq> 0 then - 1
             else 1)"

definition Abs :: "Float8 \<Rightarrow> Float8" where
  "Abs f = f AND NOT SignMask"

definition Neg :: "Float8 \<Rightarrow> Float8" where
  "Neg f = (if IsZero f then f else f XOR SignMask)"


section \<open>IEEE 754 binary32: the operations of Go's \<^verbatim>\<open>float32\<close> that the package uses\<close>

text \<open>
  A binary32 value is sign(1) | exponent(8) | fraction(23). Every finite value is an
  integer multiple of \<open>2 ^ -149\<close>; \<open>f32_units\<close> is the magnitude counted in that
  unit and \<open>f32_val\<close> the signed count. Arithmetic is the exact result rounded to
  nearest, ties to even, with overflow to infinity. A NaN result is the quiet NaN
  \<open>0x7FC00000\<close>: the package only ever tests a NaN with \<^verbatim>\<open>math.IsNaN\<close>.
\<close>

definition f32_signbit :: "float32 \<Rightarrow> bool" where
  "f32_signbit x \<longleftrightarrow> x AND 0x80000000 \<noteq> 0"

definition f32_exp :: "float32 \<Rightarrow> nat" where
  "f32_exp x = unat (drop_bit 23 x AND 0xFF)"

definition f32_mant :: "float32 \<Rightarrow> nat" where
  "f32_mant x = unat (x AND 0x7FFFFF)"

definition f32_isNaN :: "float32 \<Rightarrow> bool" where
  "f32_isNaN x \<longleftrightarrow> f32_exp x = 255 \<and> f32_mant x \<noteq> 0"

definition f32_isInf :: "float32 \<Rightarrow> bool" where
  "f32_isInf x \<longleftrightarrow> f32_exp x = 255 \<and> f32_mant x = 0"

definition f32_isZero :: "float32 \<Rightarrow> bool" where
  "f32_isZero x \<longleftrightarrow> f32_exp x = 0 \<and> f32_mant x = 0"

definition f32_NaN :: float32 where "f32_NaN = 0x7FC00000"

definition f32_Inf :: "bool \<Rightarrow> float32" where
  "f32_Inf neg = (if neg then 0xFF800000 else 0x7F800000)"

definition f32_Zero :: "bool \<Rightarrow> float32" where
  "f32_Zero neg = (if neg then 0x80000000 else 0)"

definition f32_units :: "float32 \<Rightarrow> nat" where
  "f32_units x = (if f32_exp x = 0 then f32_mant x
                  else (2 ^ 23 + f32_mant x) * 2 ^ (f32_exp x - 1))"

definition f32_val :: "float32 \<Rightarrow> int" where
  "f32_val x = (if f32_signbit x then - int (f32_units x) else int (f32_units x))"

text \<open>\<open>num / den\<close> rounded to the nearest natural number, ties to even.\<close>

definition rne :: "nat \<Rightarrow> nat \<Rightarrow> nat" where
  "rne num den = (let q = num div den; r = num mod den
                  in if den < 2 * r \<or> (2 * r = den \<and> odd q) then q + 1 else q)"

text \<open>
  The binade of \<open>num / den\<close> units: the least \<open>k\<close> with \<open>num / (den * 2 ^ k) < 2 ^ 24\<close>,
  so that the spacing of binary32 values around \<open>num / den\<close> is \<open>2 ^ k\<close> units.
\<close>

function f32_ulp_exp :: "nat \<Rightarrow> nat \<Rightarrow> nat" where
  "f32_ulp_exp num den =
     (if den = 0 \<or> num div den < 2 ^ 24 then 0 else Suc (f32_ulp_exp num (2 * den)))"
  by pat_completeness auto
termination
proof (relation "measure (\<lambda>(num, den). num div den)")
  show "wf (measure (\<lambda>(num, den). num div den))" by simp
next
  fix num den :: nat
  assume "\<not> (den = 0 \<or> num div den < 2 ^ 24)"
  then have d: "0 < den" and q: "0 < num div den" by auto
  have "num div (2 * den) = (num div den) div 2"
    by (simp add: div_mult2_eq mult.commute)
  with q have "num div (2 * den) < num div den" by simp
  then show "((num, 2 * den), (num, den)) \<in> measure (\<lambda>(num, den). num div den)" by simp
qed

declare f32_ulp_exp.simps [simp del]

text \<open>
  The binary32 value nearest to \<open>num / den\<close> units, with the given sign. With significand
  \<open>r\<close> at spacing \<open>2 ^ k\<close> the bit pattern of the magnitude is \<open>k * 2 ^ 23 + r\<close>
  (a carry out of the significand moves into the exponent field).
\<close>

definition f32_round :: "bool \<Rightarrow> nat \<Rightarrow> nat \<Rightarrow> float32" where
  "f32_round neg num den =
     (let k = f32_ulp_exp num den;
          m = k * 2 ^ 23 + rne num (den * 2 ^ k)
      in if 0x7F800000 \<le> m then f32_Inf neg else f32_Zero neg OR of_nat m)"

definition f32_add :: "float32 \<Rightarrow> float32 \<Rightarrow> float32" where
  "f32_add x y =
     (if f32_isNaN x \<or> f32_isNaN y then f32_NaN
      else if f32_isInf x then
        (if f32_isInf y \<and> f32_signbit x \<noteq> f32_signbit y then f32_NaN else x)
      else if f32_isInf y then y
      else let s = f32_val x + f32_val y
           in if s = 0 then f32_Zero (f32_signbit x \<and> f32_signbit y)
              else f32_round (s < 0) (nat \<bar>s\<bar>) 1)"

definition f32_sub :: "float32 \<Rightarrow> float32 \<Rightarrow> float32" where
  "f32_sub x y =
     (if f32_isNaN x \<or> f32_isNaN y then f32_NaN
      else if f32_isInf x then
        (if f32_isInf y \<and> f32_signbit x = f32_signbit y then f32_NaN else x)
      else if f32_isInf y then f32_Inf (\<not> f32_signbit y)
      else let s = f32_val x - f32_val y
           in if s = 0 then f32_Zero (f32_signbit x \<and> \<not> f32_signbit y)
              else f32_round (s < 0) (nat \<bar>s\<bar>) 1)"

definition f32_mul :: "float32 \<Rightarrow> float32 \<Rightarrow> float32" where
  "f32_mul x y =
     (let neg = (f32_signbit x \<noteq> f32_signbit y)
      in if f32_isNaN x \<or> f32_isNaN y then f32_NaN
         else if f32_isInf x \<or> f32_isInf y then
           (if f32_isZero x \<or> f32_isZero y then f32_NaN else f32_Inf neg)
         else if f32_isZero x \<or> f32_isZero y then f32_Zero neg
         else f32_round neg (f32_units x * f32_units y) (2 ^ 149))"

definition f32_div :: "float32 \<Rightarrow> float32 \<Rightarrow> float32" where
  "f32_div x y =
     (let neg = (f32_signbit x \<noteq> f32_signbit y)
      in if f32_isNaN x \<or> f32_isNaN y then f32_NaN
         else if f32_isInf x then (if f32_isInf y then f32_NaN else f32_Inf neg)
         else if f32_isInf y then f32_Zero neg
         else if f32_isZero y then (if f32_isZero x then f32_NaN else f32_Inf neg)
         else if f32_isZero x then f32_Zero neg
         else f32_round neg (f32_units x * 2 ^ 149) (f32_units y))"

definition f32_lt :: "float32 \<Rightarrow> float32 \<Rightarrow> bool" where
  "f32_lt x y \<longleftrightarrow>
     (if f32_isNaN x \<or> f32_isNaN y then False
      else if f32_isInf x then f32_signbit x \<and> \<not> (f32_isInf y \<and> f32_signbit y)
      else if f32_isInf y then \<not> f32_signbit y
      else f32_val x < f32_val y)"

section \<open>The codec\<close>

text \<open>
  \<^verbatim>\<open>ToFloat8WithMode\<close> returns a pair \<^verbatim>\<open>(Float8, error)\<close>; \<open>None\<close> is \<^verbatim>\<open>nil\<close>.
  \<open>exp8\<close> is an \<^verbatim>\<open>int32\<close> between -120 and 136, so it is an \<open>int\<close> here; the
  conversion \<^verbatim>\<open>uint32(exp8)\<close> is \<open>word_of_int\<close> and the final \<^verbatim>\<open>Float8(...)\<close>
  keeps the low byte.
\<close>

definition pack :: "float32 \<Rightarrow> int \<Rightarrow> float32 \<Rightarrow> Float8" where
  "pack sign exp8 mant8 =
     ucast (push_bit 7 sign OR push_bit MantissaLen (word_of_int exp8 :: 32 word) OR mant8)"

definition ToFloat8WithMode :: "float32 \<Rightarrow> ConversionMode \<Rightarrow> Float8 \<times> Float8Error option" where
  "ToFloat8WithMode f32 mode =
     (if f32_isZero f32 then
        (if f32_signbit f32 then (NegativeZero, None) else (PositiveZero, None))
      else if f32_isInf f32 then
        (if f32_lt 0 f32 then (PositiveInfinity, None) else (NegativeInfinity, None))
      else if f32_isNaN f32 then
        (if mode = ModeStrict then (0, Some ErrNaN) else (NaN, None))
      else
        let bits = f32;
            sign = drop_bit 31 bits;
            exp = int (unat (drop_bit 23 bits AND 0xFF));
            mant = bits AND 0x7FFFFF
        in if exp = 0 \<and> mant = 0 then
             (if sign \<noteq> 0 then (NegativeZero, None) else (PositiveZero, None))
           else
             let exp8 = exp - Float32Bias + ExponentBias
             in if exp8 > ExponentMax then
                  (if mode = ModeStrict then
                     (0, Some (Float8Error ''convert'' f32 ''overflow: value too large for float8''))
                   else if sign \<noteq> 0 then (NegativeInfinity, None)
                   else (PositiveInfinity, None))
                else if exp8 < ExponentMin then
                  (if mode = ModeStrict then
                     (0, Some (Float8Error ''convert'' f32 ''underflow: value too small for float8''))
                   else if sign \<noteq> 0 then (NegativeZero, None)
                   else (PositiveZero, None))
                else
                  let mant8 = drop_bit (23 - MantissaLen) mant
                  in if drop_bit (23 - MantissaLen - 1) mant AND 1 \<noteq> 0 then
                       let mant8 = mant8 + 1
                       in if mant8 \<ge> push_bit MantissaLen 1 then
                            let mant8 = 0; exp8 = exp8 + 1
                            in if exp8 > ExponentMax then
                                 (if mode = ModeStrict then
                                    (0, Some (Float8Error ''convert'' f32 ''overflow after rounding''))
                                  else if sign \<noteq> 0 then (NegativeInfinity, None)
                                  else (PositiveInfinity, None))
                               else (pack sign exp8 mant8, None)
                          else (pack sign exp8 mant8, None)
                     else (pack sign exp8 mant8, None))"

definition toFloat32Algorithmic :: "Float8 \<Rightarrow> float32" where
  "toFloat32Algorithmic f =
     (if IsZero f then (if f = NegativeZero then 0x80000000 else 0)
      else if IsNaN f then f32_NaN
      else if f = PositiveInfinity then f32_Inf False
      else if f = NegativeInfinity then f32_Inf True
      else
        let sign = drop_bit 7 (ucast f :: 32 word);
            exp8 = drop_bit MantissaLen (ucast f :: 32 word) AND 0x0F;
            mant8 = (ucast f :: 32 word) AND ucast MantissaMask;
            exp32 = exp8 - word_of_int ExponentBias + word_of_int Float32Bias;
            mant32 = push_bit (23 - MantissaLen) mant8
        in push_bit 31 sign OR push_bit 23 exp32 OR mant32)"

section \<open>Package state\<close>

text \<open>
  The package-level variables. A \<^verbatim>\<open>nil\<close> slice is \<open>None\<close>. The table variables are
  unexported and are only ever assigned \<^verbatim>\<open>nil\<close> or a slice made with 256
  (\<^verbatim>\<open>conversionTable\<close>) or 65536 entries.
\<close>

record globals =
  DefaultConversionMode :: ConversionMode
  DefaultArithmeticMode :: ArithmeticMode
  conversionTable :: "float32 list option"
  addTable :: "Float8 list option"
  subTable :: "Float8 list option"
  mulTable :: "Float8 list option"
  divTable :: "Float8 list option"

definition init_globals :: globals where
  "init_globals = \<lparr> DefaultConversionMode = ModeDefault, DefaultArithmeticMode = ArithmeticAuto,
     conversionTable = None, addTable = None, subTable = None, mulTable = None, divTable = None \<rparr>"

definition ToFloat32 :: "globals \<Rightarrow> Float8 \<Rightarrow> float32" where
  "ToFloat32 g f = (case conversionTable g of
                      Some t \<Rightarrow> t ! unat f
                    | None \<Rightarrow> toFloat32Algorithmic f)"

definition ToFloat8 :: "globals \<Rightarrow> float32 \<Rightarrow> Float8" where
  "ToFloat8 g f32 = fst (ToFloat8WithMode f32 (DefaultConversionMode g))"

text \<open>
  The loop of \<^verbatim>\<open>initConversionTable\<close> over \<^verbatim>\<open>i := 0; i < 256; i++\<close>, run on the
  slice \<^verbatim>\<open>make([]float32, 256)\<close>.
\<close>

definition fill_conversion :: "float32 list" where
  "fill_conversion =
     fold (\<lambda>i t. t[i := toFloat32Algorithmic (of_nat i)]) [0..<256] (replicate 256 0)"

definition initConversionTable :: "globals \<Rightarrow> globals" where
  "initConversionTable g =
     (if conversionTable g \<noteq> None then g
      else g\<lparr>conversionTable := Some fill_conversion\<rparr>)"

definition EnableFastConversion :: "globals \<Rightarrow> globals" where
  "EnableFastConversion g = initConversionTable g"

definition DisableFastConversion :: "globals \<Rightarrow> globals" where
  "DisableFastConversion g = g\<lparr>conversionTable := None\<rparr>"

text \<open>
  The decode table is absent or is the one \<^verbatim>\<open>initConversionTable\<close> builds: the only
  two values the package ever assigns to \<^verbatim>\<open>conversionTable\<close>.
\<close>

definition conv_ok :: "globals \<Rightarrow> bool" where
  "conv_ok g \<longleftrightarrow> conversionTable g = None \<or> conversionTable g = Some fill_conversion"

section \<open>Arithmetic\<close>

definition addAlgorithmic :: "globals \<Rightarrow> Float8 \<Rightarrow> Float8 \<Rightarrow> Float8" where
  "addAlgorithmic g a b =
     (if IsZero a then b
      else if IsZero b then a
      else if IsInf a \<or> IsInf b then
        (if a = PositiveInfinity \<and> b = NegativeInfinity then PositiveZero
         else if a = NegativeInfinity \<and> b = PositiveInfinity then PositiveZero
         else if IsInf a then a
         else b)
      else ToFloat8 g (f32_add (ToFloat32 g a) (ToFloat32 g b)))"

definition subAlgorithmic :: "globals \<Rightarrow> Float8 \<Rightarrow> Float8 \<Rightarrow> Float8" where
  "subAlgorithmic g a b =
     (if IsZero b then a
      else if IsZero a then Neg b
      else if IsInf a \<or> IsInf b then
        (if a = b \<and> IsInf a then PositiveZero
         else if IsInf a then a
         else Neg b)
      else ToFloat8 g (f32_sub (ToFloat32 g a) (ToFloat32 g b)))"

definition mulAlgorithmic :: "globals \<Rightarrow> Float8 \<Rightarrow> Float8 \<Rightarrow> Float8" where
  "mulAlgorithmic g a b =
     (if IsNaN a \<or> IsNaN b then NaN
      else
        let signA = (if a AND SignMask \<noteq> 0 then - 1 else 1 :: int);
            signB = (if b AND SignMask \<noteq> 0 then - 1 else 1 :: int)
        in if (IsInf a \<and> IsZero b) \<or> (IsZero a \<and> IsInf b) then NaN
           else if IsZero a \<or> IsZero b then
             (if signA * signB < 0 then NegativeZero else PositiveZero)
           else if IsInf a \<or> IsInf b then
             (if signA * signB > 0 then PositiveInfinity else NegativeInfinity)
           else ToFloat8 g (f32_mul (ToFloat32 g a) (ToFloat32 g b)))"

definition divAlgorithmic :: "globals \<Rightarrow> Float8 \<Rightarrow> Float8 \<Rightarrow> Float8" where
  "divAlgorithmic g a b =
     (if IsNaN a \<or> IsNaN b then NaN
      else
        let signA = (a AND SignMask \<noteq> 0);
            signB = (b AND SignMask \<noteq> 0)
        in if IsZero b then
             (if IsZero a then NaN
              else if signA = signB then PositiveInfinity
              else NegativeInfinity)
           else if IsZero a then
             (if signA \<noteq> signB then NegativeZero else PositiveZero)
           else if IsInf a then
             (if IsInf b then NaN
              else if signA = signB then PositiveInfinity
              else NegativeInfinity)
           else if IsInf b then
             (if signA = signB then PositiveZero else NegativeZero)
           else
             let result = f32_div (ToFloat32 g a) (ToFloat32 g b)
             in if f32_isInf result then
                  (if (Sign a > 0) = (Sign b > 0) then PositiveInfinity else NegativeInfinity)
                else ToFloat8 g result)"

text \<open>
  \<^verbatim>\<open>initArithmeticTables\<close>: the two nested loops over \<^verbatim>\<open>a\<close> and \<^verbatim>\<open>b\<close>, each
  iteration storing the four algorithmic results at \<^verbatim>\<open>idx := a<<8 | b\<close>. The four
  tables under construction are the components of the loop state.
\<close>

type_synonym tables = "Float8 list \<times> Float8 list \<times> Float8 list \<times> Float8 list"

definition fill_entry :: "globals \<Rightarrow> nat \<Rightarrow> nat \<Rightarrow> tables \<Rightarrow> tables" where
  "fill_entry g a b = (\<lambda>(ta, ts, tm, td).
     let idx = push_bit 8 a OR b;
         f8a = (of_nat a :: Float8);
         f8b = (of_nat b :: Float8)
     in (ta[idx := addAlgorithmic g f8a f8b],
         ts[idx := subAlgorithmic g f8a f8b],
         tm[idx := mulAlgorithmic g f8a f8b],
         td[idx := divAlgorithmic g f8a f8b]))"

definition fill_tables :: "globals \<Rightarrow> tables" where
  "fill_tables g =
     fold (\<lambda>a. fold (\<lambda>b. fill_entry g a b) [0..<256]) [0..<256]
       (replicate 65536 0, replicate 65536 0, replicate 65536 0, replicate 65536 0)"

definition initArithmeticTables :: "globals \<Rightarrow> globals" where
  "initArithmeticTables g =
     (if addTable g \<noteq> None then g
      else case fill_tables g of (ta, ts, tm, td) \<Rightarrow>
        g\<lparr>addTable := Some ta, subTable := Some ts, mulTable := Some tm, divTable := Some td\<rparr>)"

definition EnableFastArithmetic :: "globals \<Rightarrow> globals" where
  "EnableFastArithmetic g = initArithmeticTables g"

definition DisableFastArithmetic :: "globals \<Rightarrow> globals" where
  "DisableFastArithmetic g = g\<lparr>addTable := None, subTable := None, mulTable := None, divTable := None\<rparr>"

text \<open>
  \<^verbatim>\<open>Config\<close> and \<^verbatim>\<open>Configure\<close>. The two boolean fields carry a prefix, since
  their names are those of the functions above. \<^verbatim>\<open>Configure\<close> switches the tables first
  and assigns the two mode variables last.
\<close>

record Config =
  cfgEnableFastArithmetic :: bool
  cfgEnableFastConversion :: bool
  DefaultMode :: ConversionMode
  ArithmeticMode :: ArithmeticMode

definition DefaultConfig :: Config where
  "DefaultConfig = \<lparr> cfgEnableFastArithmetic = False, cfgEnableFastConversion = False,
     DefaultMode = ModeDefault, ArithmeticMode = ArithmeticAuto \<rparr>"

definition Configure :: "Config \<Rightarrow> globals \<Rightarrow> globals" where
  "Configure config g =
     (let g1 = (if cfgEnableFastArithmetic config then EnableFastArithmetic g
                else DisableFastArithmetic g);
          g2 = (if cfgEnableFastConversion config then EnableFastConversion g1
                else DisableFastConversion g1)
      in g2\<lparr>DefaultConversionMode := DefaultMode config,
             DefaultArithmeticMode := ArithmeticMode config\<rparr>)"

text \<open>
  The operator tables are absent, or they are the four tables that
  \<^verbatim>\<open>initArithmeticTables\<close> builds when \<^verbatim>\<open>DefaultConversionMode\<close> is \<open>m\<close>. These are
  the only values the package assigns to the four table variables: all four are made and
  filled together, and all four are set to \<^verbatim>\<open>nil\<close> together.
\<close>

definition tables_built_in :: "ConversionMode \<Rightarrow> globals \<Rightarrow> bool" where
  "tables_built_in m g \<longleftrightarrow>
     (addTable g = None \<and> subTable g = None \<and> mulTable g = None \<and> divTable g = None) \<or>
     (case fill_tables (g\<lparr>DefaultConversionMode := m\<rparr>) of (ta, ts, tm, td) \<Rightarrow>
        addTable g = Some ta \<and> subTable g = Some ts \<and> mulTable g = Some tm \<and>
        divTable g = Some td)"

text \<open>\<^verbatim>\<open>table[uint16(a)<<8|uint16(b)]\<close>\<close>

definition table_index :: "Float8 \<Rightarrow> Float8 \<Rightarrow> nat" where
  "table_index a b = unat (push_bit 8 (ucast a :: 16 word) OR ucast b)"

definition use_table :: "ArithmeticMode \<Rightarrow> bool" where
  "use_table mode \<longleftrightarrow> mode = ArithmeticAuto \<or> mode = ArithmeticLookup"

definition AddWithMode :: "globals \<Rightarrow> Float8 \<Rightarrow> Float8 \<Rightarrow> ArithmeticMode \<Rightarrow> Float8" where
  "AddWithMode g a b mode =
     (case addTable g of
        Some t \<Rightarrow> if use_table mode then t ! table_index a b else addAlgorithmic g a b
      | None \<Rightarrow> addAlgorithmic g a b)"

definition SubWithMode :: "globals \<Rightarrow> Float8 \<Rightarrow> Float8 \<Rightarrow> ArithmeticMode \<Rightarrow> Float8" where
  "SubWithMode g a b mode =
     (case subTable g of
        Some t \<Rightarrow> if use_table mode then t ! table_index a b else subAlgorithmic g a b
      | None \<Rightarrow> subAlgorithmic g a b)"

definition MulWithMode :: "globals \<Rightarrow> Float8 \<Rightarrow> Float8 \<Rightarrow> ArithmeticMode \<Rightarrow> Float8" where
  "MulWithMode g a b mode =
     (case mulTable g of
        Some t \<Rightarrow> if use_table mode then t ! table_index a b else mulAlgorithmic g a b
      | None \<Rightarrow> mulAlgorithmic g a b)"

definition DivWithMode :: "globals \<Rightarrow> Float8 \<Rightarrow> Float8 \<Rightarrow> ArithmeticMode \<Rightarrow> Float8" where
  "DivWithMode g a b mode =
     (case divTable g of
        Some t \<Rightarrow> if use_table mode then t ! table_index a b else divAlgorithmic g a b
      | None \<Rightarrow> divAlgorithmic g a b)"

definition Add :: "globals \<Rightarrow> Float8 \<Rightarrow> Float8 \<Rightarrow> Float8" where
  "Add g a b = AddWithMode g a b (DefaultArithmeticMode g)"

definition Sub :: "globals \<Rightarrow> Float8 \<Rightarrow> Float8 \<Rightarrow> Float8" where
  "Sub g a b = SubWithMode g a b (DefaultArithmeticMode g)"

definition Mul :: "globals \<Rightarrow> Float8 \<Rightarrow> Float8 \<Rightarrow> Float8" where
  "Mul g a b = MulWithMode g a b (DefaultArithmeticMode g)"

definition Div :: "globals \<Rightarrow> Float8 \<Rightarrow> Float8 \<Rightarrow> Float8" where
  "Div g a b = DivWithMode g a b (DefaultArithmeticMode g)"

section \<open>Ordering\<close>

definition Less :: "globals \<Rightarrow> Float8 \<Rightarrow> Float8 \<Rightarrow> bool" where
  "Less g a b \<longleftrightarrow>
     (if IsNaN a \<or> IsNaN b then False
      else if IsZero a \<and> IsZero b then False
      else if IsInf a \<and> IsInf b then a = NegativeInfinity \<and> b = PositiveInfinity
      else if IsInf a then a = NegativeInfinity
      else if IsInf b then b = PositiveInfinity
      else f32_lt (ToFloat32 g a) (ToFloat32 g b))"

definition Greater :: "globals \<Rightarrow> Float8 \<Rightarrow> Float8 \<Rightarrow> bool" where
  "Greater g a b \<longleftrightarrow> Less g b a"

definition Min :: "globals \<Rightarrow> Float8 \<Rightarrow> Float8 \<Rightarrow> Float8" where
  "Min g a b =
     (if IsNaN a \<or> IsNaN b then NaN
      else if a = NegativeInfinity \<or> b = NegativeInfinity then NegativeInfinity
      else if a = PositiveInfinity then b
      else if b = PositiveInfinity then a
      else if Less g a b then a
      else b)"

definition Max :: "globals \<Rightarrow> Float8 \<Rightarrow> Float8 \<Rightarrow> Float8" where
  "Max g a b =
     (if IsNaN a \<or> IsNaN b then NaN
      else if a = PositiveInfinity \<or> b = PositiveInfinity then PositiveInfinity
      else if a = NegativeInfinity then b
      else if b = NegativeInfinity then a
      else if Greater g a b then a
      else b)"

section \<open>Properties\<close>

lemmas f8_consts =
  SignMask_def ExponentMask_def MantissaMask_def MantissaLen_def
  ExponentBias_def ExponentMax_def ExponentMin_def Float32Bias_def
  PositiveZero_def NegativeZero_def PositiveInfinity_def NegativeInfinity_def NaN_def

lemma bit_0x80: "bit (0x80 :: Float8) n \<longleftrightarrow> n = 7"
proof -
  have "bit (push_bit 7 1 :: Float8) n \<longleftrightarrow> n = 7"
    by (auto simp add: bit_push_bit_iff bit_1_iff simp del: push_bit_of_1)
  then show ?thesis by simp
qed

text \<open>
  C10. Negation returns both zero bit patterns unchanged, and for every other value it
  flips exactly the sign bit: the result differs from the operand in bit 7 and in no
  other bit.
\<close>

theorem Neg_zero_and_sign_flip:
  "Neg PositiveZero = PositiveZero \<and> Neg NegativeZero = NegativeZero \<and>
   (\<forall>f. \<not> IsZero f \<longrightarrow>
      Neg f = f XOR 0x80 \<and> (\<forall>n. bit (Neg f) n \<longleftrightarrow> (if n = 7 then \<not> bit f n else bit f n)))"
proof (intro conjI allI impI)
  show "Neg PositiveZero = PositiveZero" "Neg NegativeZero = NegativeZero"
    by (simp_all add: Neg_def IsZero_def)
next
  fix f assume nz: "\<not> IsZero f"
  then show eq: "Neg f = f XOR 0x80"
    by (simp add: Neg_def SignMask_def)
  fix n
  show "bit (Neg f) n \<longleftrightarrow> (if n = 7 then \<not> bit f n else bit f n)"
    unfolding eq bit_xor_iff bit_0x80 by auto
qed

theorem Neg_zero_and_sign_flip_witness:
  "\<not> IsZero 0x38 \<and> Neg 0x38 = 0xB8 \<and> (bit (Neg 0x38) 7 \<longleftrightarrow> \<not> bit (0x38 :: Float8) 7)"
proof -
  have h: "\<not> IsZero 0x38"
    by (simp add: IsZero_def PositiveZero_def NegativeZero_def)
  from Neg_zero_and_sign_flip h
  have "Neg 0x38 = 0x38 XOR 0x80 \<and> (bit (Neg 0x38) 7 \<longleftrightarrow> \<not> bit (0x38 :: Float8) 7)"
    by (metis (full_types))
  with h show ?thesis by simp
qed

subsection \<open>Case analysis over all 256 bytes\<close>

lemma Float8_all: "(\<forall>v::Float8. P v) \<longleftrightarrow> list_all (\<lambda>n. P (of_nat n)) [0..<256]"
proof
  assume "\<forall>v. P v"
  then show "list_all (\<lambda>n. P (of_nat n)) [0..<256]" by (simp add: list_all_iff)
next
  assume a: "list_all (\<lambda>n. P (of_nat n)) [0..<256]"
  show "\<forall>v. P v"
  proof
    fix v :: Float8
    have "unat v < 256" using unsigned_less [of v, where 'a=nat] by simp
    then have "unat v \<in> set [0..<256]" by simp
    with a have "P (of_nat (unat v))" unfolding list_all_iff by blast
    then show "P v" by simp
  qed
qed

lemma Float8_enum:
  assumes "list_all (\<lambda>n. P (of_nat n)) [0..<256]"
  shows "P (v :: Float8)"
  using assms Float8_all [of P] by blast

text \<open>The same rule with the list unrolled: one premise, the conjunction of the 256 instances.\<close>

lemmas Float8_cases = Float8_enum [simplified upt_conv_Cons, simplified]

subsection \<open>The decode table\<close>

lemma fold_update_length: "length (fold (\<lambda>i t. t[i := f i]) xs t) = length t"
  by (induction xs arbitrary: t) auto

lemma fold_update_nth:
  "n \<le> length t \<Longrightarrow>
   fold (\<lambda>i t. t[i := f i]) [0..<n] t ! k = (if k < n then f k else t ! k)"
proof (induction n arbitrary: k)
  case 0
  then show ?case by simp
next
  case (Suc n)
  have len: "n < length (fold (\<lambda>i t. t[i := f i]) [0..<n] t)"
    using Suc.prems by (simp add: fold_update_length)
  show ?case
    using Suc.IH [of k] Suc.prems len by (auto simp add: nth_list_update less_Suc_eq)
qed

lemma fill_conversion_nth: "fill_conversion ! unat f = toFloat32Algorithmic f"
proof -
  have "unat f < 256" using unsigned_less [of f, where 'a=nat] by simp
  then show ?thesis
    unfolding fill_conversion_def by (simp add: fold_update_nth)
qed

lemma length_fill_conversion: "length fill_conversion = 256"
  unfolding fill_conversion_def by (simp add: fold_update_length)

lemma ToFloat32_conv_ok: "conv_ok g \<Longrightarrow> ToFloat32 g f = toFloat32Algorithmic f"
  by (auto simp add: conv_ok_def ToFloat32_def fill_conversion_nth)

lemma conv_ok_init: "conv_ok init_globals"
  by (simp add: conv_ok_def init_globals_def)

lemma conv_ok_Enable: "conv_ok g \<Longrightarrow> conv_ok (EnableFastConversion g)"
  by (auto simp add: conv_ok_def EnableFastConversion_def initConversionTable_def)

lemma conv_ok_Disable: "conv_ok (DisableFastConversion g)"
  by (simp add: conv_ok_def DisableFastConversion_def)

subsection \<open>Round trip\<close>

lemmas codec_defs =
  ToFloat8WithMode_def toFloat32Algorithmic_def IsZero_def IsNaN_def IsInf_def f8_consts
  f32_isZero_def f32_isInf_def f32_isNaN_def f32_exp_def f32_mant_def f32_signbit_def
  f32_lt_def f32_Inf_def f32_NaN_def pack_def Let_def

lemma roundtrip_algorithmic:
  "(v \<noteq> 0x7F \<and> v \<noteq> 0xFF \<longrightarrow>
      ToFloat8WithMode (toFloat32Algorithmic v) ModeDefault = (v, None)) \<and>
   (v = 0x7F \<or> v = 0xFF \<longrightarrow>
      ToFloat8WithMode (toFloat32Algorithmic v) ModeDefault = (NaN, None))"
  apply (rule Float8_cases [where v = v])
  apply (intro conjI TrueI)
  apply (simp_all add: codec_defs)
  done

lemma IsNaN_iff: "IsNaN v \<longleftrightarrow> v = 0x7F \<or> v = 0xFF"
  apply (rule Float8_cases [where v = v])
  apply (intro conjI TrueI)
  apply (simp_all add: IsNaN_def)
  done

text \<open>
  C1. Decoding a byte and encoding the result in Default mode gives the byte back, with no
  error, for each of the 254 bytes other than the NaN patterns \<open>0x7F\<close> and \<open>0xFF\<close>;
  for these two the round trip gives a NaN pattern. The decode goes through
  \<^verbatim>\<open>ToFloat32\<close>, with or without the decode table.
\<close>

theorem roundtrip:
  assumes "conv_ok g"
  shows "(\<not> IsNaN v \<longrightarrow> ToFloat8WithMode (ToFloat32 g v) ModeDefault = (v, None)) \<and>
         (IsNaN v \<longrightarrow> IsNaN (fst (ToFloat8WithMode (ToFloat32 g v) ModeDefault)) \<and>
                     snd (ToFloat8WithMode (ToFloat32 g v) ModeDefault) = None) \<and>
         (IsNaN v \<longleftrightarrow> v = 0x7F \<or> v = 0xFF)"
  using roundtrip_algorithmic [of v]
  by (auto simp add: ToFloat32_conv_ok [OF assms] IsNaN_iff) (simp_all add: IsNaN_def NaN_def)

theorem roundtrip_witness:
  "conv_ok init_globals \<and>
   ToFloat8WithMode (ToFloat32 init_globals 0x38) ModeDefault = (0x38, None) \<and>
   IsNaN (fst (ToFloat8WithMode (ToFloat32 init_globals 0xFF) ModeDefault))"
proof -
  have ok: "conv_ok init_globals" by (simp add: conv_ok_def init_globals_def)
  have n: "\<not> IsNaN 0x38" "IsNaN 0xFF" by (simp_all add: IsNaN_def)
  from roundtrip [OF ok, of "0x38"] roundtrip [OF ok, of "0xFF"] ok n show ?thesis by simp
qed

subsection \<open>Special values of the four operators\<close>

lemmas special_defs = IsZero_def IsNaN_def IsInf_def f8_consts

text \<open>
  C2. NaN dominance fails for addition and subtraction: with a NaN first operand and an
  infinite second operand the infinity branch returns the second operand (negated for
  subtraction), and with an infinite first operand and a NaN second operand it returns the
  first. The documentation of \<^verbatim>\<open>Add\<close> and \<^verbatim>\<open>Sub\<close> says \<^verbatim>\<open>Add(NaN, x) = NaN\<close>.
\<close>

theorem add_sub_NaN_not_dominant:
  "IsNaN NaN \<and> \<not> IsNaN PositiveInfinity \<and> \<not> IsNaN NegativeInfinity \<and>
   addAlgorithmic init_globals NaN PositiveInfinity = PositiveInfinity \<and>
   addAlgorithmic init_globals PositiveInfinity NaN = PositiveInfinity \<and>
   subAlgorithmic init_globals NaN PositiveInfinity = NegativeInfinity \<and>
   subAlgorithmic init_globals PositiveInfinity NaN = PositiveInfinity"
  by (simp add: addAlgorithmic_def subAlgorithmic_def Neg_def special_defs)

lemma mul_div_NaN_dominant:
  "IsNaN a \<or> IsNaN b \<Longrightarrow> IsNaN (mulAlgorithmic g a b) \<and> IsNaN (divAlgorithmic g a b)"
  by (simp add: mulAlgorithmic_def divAlgorithmic_def) (simp add: IsNaN_def NaN_def)

text \<open>
  C4. A finite nonzero input below the smallest nonzero value of the format is not always
  flushed: \<open>2 ^ -10\<close> (bits \<open>0x3A800000\<close>) has the rebiased exponent \<open>-3\<close>, which is
  not below \<^verbatim>\<open>ExponentMin = -7\<close>, and the negative exponent wraps into the byte:
  the result is \<open>0xE8\<close> (which decodes to \<open>-64\<close>), with no error in either mode.
\<close>

theorem tiny_input_not_flushed:
  "\<not> f32_isZero 0x3A800000 \<and> \<not> f32_isInf 0x3A800000 \<and> \<not> f32_isNaN 0x3A800000 \<and>
   f32_lt 0 0x3A800000 \<and> f32_lt 0x3A800000 (toFloat32Algorithmic SmallestPositive) \<and>
   ToFloat8WithMode 0x3A800000 ModeDefault = (0xE8, None) \<and>
   ToFloat8WithMode 0x3A800000 ModeStrict = (0xE8, None) \<and>
   toFloat32Algorithmic 0xE8 = 0xC2800000"
  by (simp add: codec_defs SmallestPositive_def f32_val_def f32_units_def)

lemma bit_0x80000000: "bit (0x80000000 :: float32) n \<longleftrightarrow> n = 31"
proof -
  have "bit (push_bit 31 1 :: float32) n \<longleftrightarrow> n = 31"
    by (auto simp add: bit_push_bit_iff bit_1_iff simp del: push_bit_of_1)
  then show ?thesis by simp
qed

lemma bit_int_0x80000000: "bit (0x80000000 :: int) n \<longleftrightarrow> n = 31"
proof -
  have "bit (push_bit 31 1 :: int) n \<longleftrightarrow> n = 31"
    by (auto simp add: bit_push_bit_iff bit_1_iff simp del: push_bit_of_1)
  then show ?thesis by simp
qed

lemma f32_sign_and: "(f :: float32) AND 0x80000000 = (if bit f 31 then 0x80000000 else 0)"
  by (rule bit_eqI) (auto simp add: bit_and_iff bit_int_0x80000000)

lemma f32_sign_drop: "drop_bit 31 (f :: float32) = (if bit f 31 then 1 else 0)"
proof (rule bit_eqI)
  fix n
  have "bit f (31 + n) \<Longrightarrow> n = 0" using bit_imp_le_length [of f "31 + n"] by simp
  then show "bit (drop_bit 31 f) n \<longleftrightarrow> bit (if bit f 31 then 1 else 0 :: float32) n"
    by (auto simp add: bit_drop_bit_eq bit_1_iff)
qed

text \<open>
  What the underflow check does cover: a rebiased exponent below \<^verbatim>\<open>ExponentMin\<close>,
  that is a binary32 exponent field below 113 (magnitude below \<open>2 ^ -14\<close>).
\<close>

lemma underflow_below_ExponentMin:
  assumes "\<not> f32_isZero f" and "int (f32_exp f) - Float32Bias + ExponentBias < ExponentMin"
  shows "ToFloat8WithMode f ModeDefault = (if f32_signbit f then NegativeZero else PositiveZero, None)"
    and "ToFloat8WithMode f ModeStrict =
           (0, Some (Float8Error ''convert'' f ''underflow: value too small for float8''))"
proof -
  have e: "f32_exp f < 113" using assms(2) by (simp add: f8_consts)
  have s: "drop_bit 31 f \<noteq> 0 \<longleftrightarrow> f32_signbit f"
    by (simp add: f32_signbit_def f32_sign_and f32_sign_drop)
  have m: "f AND 0x7FFFFF = 0 \<longleftrightarrow> f32_mant f = 0"
    by (simp add: f32_mant_def unat_eq_0)
  have E: "uint (drop_bit 23 f AND 0xFF) = int (f32_exp f)"
    by (simp add: f32_exp_def)
  have nz: "\<not> (f32_exp f = 0 \<and> f32_mant f = 0)"
    using assms(1) by (simp add: f32_isZero_def)
  show "ToFloat8WithMode f ModeDefault = (if f32_signbit f then NegativeZero else PositiveZero, None)"
    using e nz
    by (simp add: ToFloat8WithMode_def f32_isInf_def f32_isNaN_def Let_def f8_consts E s m assms(1))
  show "ToFloat8WithMode f ModeStrict =
           (0, Some (Float8Error ''convert'' f ''underflow: value too small for float8''))"
    using e nz
    by (simp add: ToFloat8WithMode_def f32_isInf_def f32_isNaN_def Let_def f8_consts E s m assms(1))
qed

text \<open>The special-value matrix of \<^verbatim>\<open>divAlgorithmic\<close>, in every package state.\<close>

lemma divAlgorithmic_special_values:
  assumes "\<not> IsNaN a" and "\<not> IsNaN b"
  shows "(IsZero a \<and> IsZero b \<longrightarrow> IsNaN (divAlgorithmic g a b)) \<and>
         (IsInf a \<and> IsInf b \<longrightarrow> IsNaN (divAlgorithmic g a b)) \<and>
         (\<not> IsInf a \<and> \<not> IsZero a \<and> IsZero b \<longrightarrow>
            divAlgorithmic g a b =
              (if (a AND SignMask \<noteq> 0) \<noteq> (b AND SignMask \<noteq> 0)
               then NegativeInfinity else PositiveInfinity)) \<and>
         (IsInf a \<and> \<not> IsInf b \<and> \<not> IsZero b \<longrightarrow>
            divAlgorithmic g a b =
              (if (a AND SignMask \<noteq> 0) \<noteq> (b AND SignMask \<noteq> 0)
               then NegativeInfinity else PositiveInfinity)) \<and>
         (IsZero a \<and> \<not> IsInf b \<and> \<not> IsZero b \<longrightarrow>
            divAlgorithmic g a b =
              (if (a AND SignMask \<noteq> 0) \<noteq> (b AND SignMask \<noteq> 0)
               then NegativeZero else PositiveZero)) \<and>
         (\<not> IsInf a \<and> IsInf b \<longrightarrow>
            divAlgorithmic g a b =
              (if (a AND SignMask \<noteq> 0) \<noteq> (b AND SignMask \<noteq> 0)
               then NegativeZero else PositiveZero)) \<and>
         ToFloat8 g 0x3F800000 = 0x38 \<and>
         divAlgorithmic g (ToFloat8 g 0x3F800000) NegativeZero = 0xF8"
proof -
  have one: "ToFloat8 g 0x3F800000 = 0x38"
    by (simp add: ToFloat8_def codec_defs)
  have scen: "divAlgorithmic g 0x38 NegativeZero = 0xF8"
    by (simp add: divAlgorithmic_def special_defs)
  have nan: "IsNaN NaN" by (simp add: IsNaN_def NaN_def)
  have zi: "\<And>x. IsZero x \<Longrightarrow> \<not> IsInf x" by (auto simp add: special_defs)
  show ?thesis
    using assms one scen nan
    by (auto simp add: divAlgorithmic_def Let_def dest: zi)
qed

text \<open>
  C6. Addition is not commutative on the two zeros: whenever the first operand is a zero the
  second operand is returned, so \<open>+0 + -0\<close> is \<open>-0\<close> and \<open>-0 + +0\<close> is \<open>+0\<close>.
  The documentation of \<^verbatim>\<open>Add\<close> says \<^verbatim>\<open>Add(+0, \<plusminus>0) = +0\<close>.
\<close>

theorem add_zeros_not_commutative:
  "IsFinite PositiveZero \<and> IsFinite NegativeZero \<and>
   addAlgorithmic init_globals PositiveZero NegativeZero = NegativeZero \<and>
   addAlgorithmic init_globals NegativeZero PositiveZero = PositiveZero \<and>
   Add init_globals PositiveZero NegativeZero = NegativeZero \<and>
   Add init_globals NegativeZero PositiveZero = PositiveZero \<and>
   NegativeZero \<noteq> PositiveZero"
  by (simp add: Add_def AddWithMode_def init_globals_def addAlgorithmic_def IsFinite_def
      special_defs)

text \<open>
  C7, as stated, fails at negative zero: \<open>-0 + +0\<close> is \<open>+0\<close>, not \<open>-0\<close>.
\<close>

theorem add_negzero_poszero:
  "IsFinite NegativeZero \<and>
   addAlgorithmic init_globals NegativeZero PositiveZero \<noteq> NegativeZero \<and>
   Add init_globals NegativeZero PositiveZero \<noteq> NegativeZero"
  by (simp add: Add_def AddWithMode_def init_globals_def addAlgorithmic_def IsFinite_def
      special_defs)

text \<open>
  C7, amended. Positive zero is a right identity of addition on every byte other than
  negative zero (so on every finite value other than negative zero), and \<open>-0 + +0\<close> is
  \<open>+0\<close>. For \<open>+0 + +0\<close>, \<open>-0 + +0\<close> and \<open>-0 + -0\<close> the result is negative only if
  both operands are.
\<close>

theorem add_poszero_identity:
  "(x \<noteq> NegativeZero \<longrightarrow> addAlgorithmic g x PositiveZero = x) \<and>
   addAlgorithmic g NegativeZero PositiveZero = PositiveZero \<and>
   addAlgorithmic g PositiveZero PositiveZero = PositiveZero \<and>
   addAlgorithmic g NegativeZero NegativeZero = NegativeZero"
  by (auto simp add: addAlgorithmic_def IsZero_def)

theorem add_poszero_identity_witness:
  "(0x38 :: Float8) \<noteq> NegativeZero \<and> addAlgorithmic init_globals 0x38 PositiveZero = 0x38"
proof -
  have h: "(0x38 :: Float8) \<noteq> NegativeZero" by (simp add: NegativeZero_def)
  from add_poszero_identity [of "0x38" init_globals] h show ?thesis by simp
qed

subsection \<open>The operator tables\<close>

lemma row_index: "b < 256 \<Longrightarrow> push_bit 8 a OR b = a * 256 + (b :: nat)"
proof -
  assume "b < 256"
  then have tb: "take_bit 8 b = b" by (simp add: take_bit_nat_eq_self_iff)
  have low: "bit b n \<Longrightarrow> n < 8" for n
    using bit_take_bit_iff [of 8 b n] by (simp add: tb)
  have "push_bit 8 a AND b = 0"
    by (rule bit_eqI) (auto simp add: bit_and_iff bit_push_bit_iff dest: low)
  then have "push_bit 8 a + b = push_bit 8 a OR b" by (rule disjunctive_add_eq_or)
  then show ?thesis by (simp add: push_bit_eq_mult)
qed

lemma table_index_eq: "table_index a b = unat a * 256 + unat b"
proof -
  have a: "unat a < 256" and b: "unat b < 256"
    using unsigned_less [of a, where 'a=nat] unsigned_less [of b, where 'a=nat] by simp_all
  have ua: "unat (ucast a :: 16 word) = unat a" and ub: "unat (ucast b :: 16 word) = unat b"
    using a b by (simp_all add: unsigned_ucast_eq take_bit_nat_eq_self_iff)
  have "push_bit 8 (unat a) < 2 ^ 16" using a by (simp add: push_bit_eq_mult)
  then have "unat (push_bit 8 (ucast a :: 16 word)) = push_bit 8 (unat a)"
    by (simp add: unsigned_push_bit_eq ua take_bit_nat_eq_self_iff)
  then have "table_index a b = push_bit 8 (unat a) OR unat b"
    by (simp add: table_index_def unsigned_or_eq ub)
  with b show ?thesis by (simp add: row_index)
qed

lemma table_index_less: "table_index a b < 65536"
proof -
  have "unat a < 256" and "unat b < 256"
    using unsigned_less [of a, where 'a=nat] unsigned_less [of b, where 'a=nat] by simp_all
  then show ?thesis unfolding table_index_eq by simp
qed

text \<open>One table: the inner loop fills row \<open>a\<close>, the outer loop fills the rows in order.\<close>

lemma fill_row:
  fixes f :: "nat \<Rightarrow> nat \<Rightarrow> 'a"
  assumes "m \<le> 256" and "a < 256" and "length t = 65536"
  shows "length (fold (\<lambda>b t. t[push_bit 8 a OR b := f a b]) [0..<m] t) = 65536 \<and>
         (\<forall>k. fold (\<lambda>b t. t[push_bit 8 a OR b := f a b]) [0..<m] t ! k =
               (if a * 256 \<le> k \<and> k < a * 256 + m then f a (k - a * 256) else t ! k))"
  using assms(1)
proof (induction m)
  case 0
  then show ?case using assms(3) by auto
next
  case (Suc m)
  let ?t = "fold (\<lambda>b t. t[push_bit 8 a OR b := f a b]) [0..<m] t"
  from Suc have m: "m < 256" and len: "length ?t = 65536"
    and IH: "\<And>k. ?t ! k = (if a * 256 \<le> k \<and> k < a * 256 + m then f a (k - a * 256) else t ! k)"
    by simp_all
  have idx: "push_bit 8 a OR m = a * 256 + m" using m by (rule row_index)
  have bound: "a * 256 + m < 65536" using m assms(2) by simp
  show ?case
  proof (intro conjI allI)
    show "length (fold (\<lambda>b t. t[push_bit 8 a OR b := f a b]) [0..<Suc m] t) = 65536"
      using len by simp
    fix k
    show "fold (\<lambda>b t. t[push_bit 8 a OR b := f a b]) [0..<Suc m] t ! k =
          (if a * 256 \<le> k \<and> k < a * 256 + Suc m then f a (k - a * 256) else t ! k)"
    proof (cases "k = a * 256 + m")
      case True
      then show ?thesis using len bound by (simp add: idx)
    next
      case False
      then show ?thesis using IH [of k] by (auto simp add: idx nth_list_update)
    qed
  qed
qed

lemma fill_rows:
  fixes f :: "nat \<Rightarrow> nat \<Rightarrow> 'a"
  assumes "n \<le> 256" and "length t = 65536"
  shows "length (fold (\<lambda>a. fold (\<lambda>b t. t[push_bit 8 a OR b := f a b]) [0..<256]) [0..<n] t) = 65536 \<and>
         (\<forall>k. fold (\<lambda>a. fold (\<lambda>b t. t[push_bit 8 a OR b := f a b]) [0..<256]) [0..<n] t ! k =
               (if k < n * 256 then f (k div 256) (k mod 256) else t ! k))"
  using assms(1)
proof (induction n)
  case 0
  then show ?case using assms(2) by auto
next
  case (Suc n)
  let ?t = "fold (\<lambda>a. fold (\<lambda>b t. t[push_bit 8 a OR b := f a b]) [0..<256]) [0..<n] t"
  from Suc have n: "n < 256" and len: "length ?t = 65536"
    and IH: "\<And>k. ?t ! k = (if k < n * 256 then f (k div 256) (k mod 256) else t ! k)"
    by simp_all
  note row = fill_row [where f = f, OF order_refl n len]
  show ?case
  proof (intro conjI allI)
    show "length (fold (\<lambda>a. fold (\<lambda>b t. t[push_bit 8 a OR b := f a b]) [0..<256]) [0..<Suc n] t) = 65536"
      using row by simp
    fix k
    have step: "fold (\<lambda>a. fold (\<lambda>b t. t[push_bit 8 a OR b := f a b]) [0..<256]) [0..<Suc n] t ! k =
          (if n * 256 \<le> k \<and> k < n * 256 + 256 then f n (k - n * 256) else ?t ! k)"
      using row by simp
    show "fold (\<lambda>a. fold (\<lambda>b t. t[push_bit 8 a OR b := f a b]) [0..<256]) [0..<Suc n] t ! k =
          (if k < Suc n * 256 then f (k div 256) (k mod 256) else t ! k)"
    proof (cases "n * 256 \<le> k \<and> k < n * 256 + 256")
      case True
      define r where "r = k - n * 256"
      from True have lo: "n * 256 \<le> k" and hi: "k < n * 256 + 256" by simp_all
      have k: "k = r + n * 256" using lo by (simp add: r_def)
      have r: "r < 256" using lo hi unfolding r_def by linarith
      have "k div 256 = n" "k mod 256 = r" unfolding k using r by simp_all
      then show ?thesis unfolding step using True by (simp add: r_def)
    next
      case False
      then show ?thesis unfolding step using IH [of k] by auto
    qed
  qed
qed

lemma fill_entry_row:
  "fold (\<lambda>b. fill_entry g a b) bs (ta, ts, tm, td) =
     (fold (\<lambda>b t. t[push_bit 8 a OR b := addAlgorithmic g (of_nat a) (of_nat b)]) bs ta,
      fold (\<lambda>b t. t[push_bit 8 a OR b := subAlgorithmic g (of_nat a) (of_nat b)]) bs ts,
      fold (\<lambda>b t. t[push_bit 8 a OR b := mulAlgorithmic g (of_nat a) (of_nat b)]) bs tm,
      fold (\<lambda>b t. t[push_bit 8 a OR b := divAlgorithmic g (of_nat a) (of_nat b)]) bs td)"
  by (induction bs arbitrary: ta ts tm td) (simp_all add: fill_entry_def Let_def)

lemma fill_entry_rows:
  "fold (\<lambda>a. fold (\<lambda>b. fill_entry g a b) bs) as (ta, ts, tm, td) =
     (fold (\<lambda>a. fold (\<lambda>b t. t[push_bit 8 a OR b := addAlgorithmic g (of_nat a) (of_nat b)]) bs) as ta,
      fold (\<lambda>a. fold (\<lambda>b t. t[push_bit 8 a OR b := subAlgorithmic g (of_nat a) (of_nat b)]) bs) as ts,
      fold (\<lambda>a. fold (\<lambda>b t. t[push_bit 8 a OR b := mulAlgorithmic g (of_nat a) (of_nat b)]) bs) as tm,
      fold (\<lambda>a. fold (\<lambda>b t. t[push_bit 8 a OR b := divAlgorithmic g (of_nat a) (of_nat b)]) bs) as td)"
  by (induction as arbitrary: ta ts tm td) (simp_all add: fill_entry_row)

lemma fill_tables_eq:
  "fill_tables g =
     (fold (\<lambda>a. fold (\<lambda>b t. t[push_bit 8 a OR b := addAlgorithmic g (of_nat a) (of_nat b)]) [0..<256]) [0..<256] (replicate 65536 0),
      fold (\<lambda>a. fold (\<lambda>b t. t[push_bit 8 a OR b := subAlgorithmic g (of_nat a) (of_nat b)]) [0..<256]) [0..<256] (replicate 65536 0),
      fold (\<lambda>a. fold (\<lambda>b t. t[push_bit 8 a OR b := mulAlgorithmic g (of_nat a) (of_nat b)]) [0..<256]) [0..<256] (replicate 65536 0),
      fold (\<lambda>a. fold (\<lambda>b t. t[push_bit 8 a OR b := divAlgorithmic g (of_nat a) (of_nat b)]) [0..<256]) [0..<256] (replicate 65536 0))"
  unfolding fill_tables_def by (rule fill_entry_rows)

lemma filled_nth:
  fixes f :: "Float8 \<Rightarrow> Float8 \<Rightarrow> Float8"
  shows "fold (\<lambda>a. fold (\<lambda>b t. t[push_bit 8 a OR b := f (of_nat a) (of_nat b)]) [0..<256]) [0..<256]
           (replicate 65536 0) ! table_index a b = f a b"
proof -
  have a: "unat a < 256" and b: "unat b < 256"
    using unsigned_less [of a, where 'a=nat] unsigned_less [of b, where 'a=nat] by simp_all
  have d: "(unat a * 256 + unat b) div 256 = unat a" and m: "(unat a * 256 + unat b) mod 256 = unat b"
    using b by simp_all
  have lt: "unat a * 256 + unat b < 256 * 256" using a b by simp
  from fill_rows [where f = "\<lambda>a b. f (of_nat a) (of_nat b)" and n = 256 and t = "replicate 65536 0"]
  have "fold (\<lambda>a. fold (\<lambda>b t. t[push_bit 8 a OR b := f (of_nat a) (of_nat b)]) [0..<256]) [0..<256]
           (replicate 65536 0) ! (unat a * 256 + unat b) =
        f (of_nat ((unat a * 256 + unat b) div 256)) (of_nat ((unat a * 256 + unat b) mod 256))"
    using lt by simp
  then show ?thesis
    unfolding table_index_eq d m by simp
qed

lemma fill_tables_nth:
  "fst (fill_tables g) ! table_index a b = addAlgorithmic g a b"
  "fst (snd (fill_tables g)) ! table_index a b = subAlgorithmic g a b"
  "fst (snd (snd (fill_tables g))) ! table_index a b = mulAlgorithmic g a b"
  "snd (snd (snd (fill_tables g))) ! table_index a b = divAlgorithmic g a b"
  unfolding fill_tables_eq by (simp_all add: filled_nth)

text \<open>The algorithmic operators read the decode table and the conversion mode only.\<close>

lemma codec_ignores_tables:
  "ToFloat32 (g\<lparr>addTable := x, subTable := y, mulTable := z, divTable := w\<rparr>) = ToFloat32 g"
  "ToFloat8 (g\<lparr>addTable := x, subTable := y, mulTable := z, divTable := w\<rparr>) = ToFloat8 g"
  by (simp_all add: fun_eq_iff ToFloat32_def ToFloat8_def)

lemma algorithmic_ignores_tables:
  "addAlgorithmic (g\<lparr>addTable := x, subTable := y, mulTable := z, divTable := w\<rparr>) a b =
     addAlgorithmic g a b"
  "subAlgorithmic (g\<lparr>addTable := x, subTable := y, mulTable := z, divTable := w\<rparr>) a b =
     subAlgorithmic g a b"
  "mulAlgorithmic (g\<lparr>addTable := x, subTable := y, mulTable := z, divTable := w\<rparr>) a b =
     mulAlgorithmic g a b"
  "divAlgorithmic (g\<lparr>addTable := x, subTable := y, mulTable := z, divTable := w\<rparr>) a b =
     divAlgorithmic g a b"
  unfolding addAlgorithmic_def subAlgorithmic_def mulAlgorithmic_def divAlgorithmic_def
    codec_ignores_tables
  by (rule refl)+

lemma EnableFastArithmetic_idem:
  "EnableFastArithmetic (EnableFastArithmetic g) = EnableFastArithmetic g"
  by (cases "fill_tables g") (simp add: EnableFastArithmetic_def initArithmeticTables_def)

subsection \<open>Fields of a binary32 bit pattern\<close>

lemma f32_masks: "(0x7FFFFF :: float32) = mask 23" "(0xFF :: float32) = mask 8"
  by (simp_all add: mask_eq_exp_minus_1)

lemma f32_signbit_iff: "f32_signbit x \<longleftrightarrow> bit x 31"
  by (simp add: f32_signbit_def f32_sign_and)

lemma f32_mant_bits: "f32_mant x = f32_mant y \<longleftrightarrow> (\<forall>n<23. bit x n = bit y n)"
proof -
  have "f32_mant x = f32_mant y \<longleftrightarrow> x AND mask 23 = y AND mask 23"
    unfolding f32_mant_def f32_masks by (simp add: word_unat_eq_iff)
  also have "\<dots> \<longleftrightarrow> (\<forall>n<23. bit x n = bit y n)"
  proof (rule iffI)
    assume eq: "x AND mask 23 = y AND mask 23"
    have "bit x n = bit y n" if n: "n < 23" for n
    proof -
      from eq have "bit (x AND mask 23) n = bit (y AND mask 23) n" by simp
      with n show ?thesis by (simp add: bit_and_iff bit_mask_iff)
    qed
    then show "\<forall>n<23. bit x n = bit y n" by blast
  next
    assume a: "\<forall>n<23. bit x n = bit y n"
    show "x AND mask 23 = y AND mask 23"
      by (rule bit_eqI) (auto simp add: bit_and_iff bit_mask_iff a)
  qed
  finally show ?thesis .
qed

lemma f32_exp_bits: "f32_exp x = f32_exp y \<longleftrightarrow> (\<forall>n. 23 \<le> n \<and> n < 31 \<longrightarrow> bit x n = bit y n)"
proof -
  have "f32_exp x = f32_exp y \<longleftrightarrow> drop_bit 23 x AND mask 8 = drop_bit 23 y AND mask 8"
    unfolding f32_exp_def f32_masks by (simp add: word_unat_eq_iff)
  also have "\<dots> \<longleftrightarrow> (\<forall>k<8. bit x (23 + k) = bit y (23 + k))"
  proof (rule iffI)
    assume eq: "drop_bit 23 x AND mask 8 = drop_bit 23 y AND mask 8"
    have "bit x (23 + k) = bit y (23 + k)" if k: "k < 8" for k
    proof -
      from eq have "bit (drop_bit 23 x AND mask 8) k = bit (drop_bit 23 y AND mask 8) k" by simp
      with k show ?thesis by (simp add: bit_and_iff bit_mask_iff bit_drop_bit_eq)
    qed
    then show "\<forall>k<8. bit x (23 + k) = bit y (23 + k)" by blast
  next
    assume a: "\<forall>k<8. bit x (23 + k) = bit y (23 + k)"
    show "drop_bit 23 x AND mask 8 = drop_bit 23 y AND mask 8"
      by (rule bit_eqI) (auto simp add: bit_and_iff bit_mask_iff bit_drop_bit_eq a)
  qed
  also have "\<dots> \<longleftrightarrow> (\<forall>n. 23 \<le> n \<and> n < 31 \<longrightarrow> bit x n = bit y n)"
  proof
    assume a: "\<forall>k<8. bit x (23 + k) = bit y (23 + k)"
    show "\<forall>n. 23 \<le> n \<and> n < 31 \<longrightarrow> bit x n = bit y n"
    proof (intro allI impI)
      fix n :: nat assume "23 \<le> n \<and> n < 31"
      then have "n - 23 < 8" "23 + (n - 23) = n" by auto
      with a show "bit x n = bit y n" by metis
    qed
  next
    assume "\<forall>n. 23 \<le> n \<and> n < 31 \<longrightarrow> bit x n = bit y n"
    then show "\<forall>k<8. bit x (23 + k) = bit y (23 + k)" by simp
  qed
  finally show ?thesis .
qed

lemma f32_fields_eq:
  assumes "f32_signbit x = f32_signbit y" and "f32_exp x = f32_exp y" and "f32_mant x = f32_mant y"
  shows "x = y"
proof (rule bit_eqI)
  fix n
  assume "possible_bit TYPE(float32) n"
  then have n: "n < 32" by (simp add: possible_bit_def)
  consider "n < 23" | "23 \<le> n \<and> n < 31" | "n = 31" using n by linarith
  then show "bit x n = bit y n"
  proof cases
    case 1
    with assms(3) show ?thesis by (simp add: f32_mant_bits)
  next
    case 2
    with assms(2) show ?thesis by (simp add: f32_exp_bits)
  next
    case 3
    with assms(1) show ?thesis by (simp add: f32_signbit_iff)
  qed
qed

lemma f32_neg_fields:
  "f32_exp (y XOR 0x80000000) = f32_exp y"
  "f32_mant (y XOR 0x80000000) = f32_mant y"
  "f32_signbit (y XOR 0x80000000) \<longleftrightarrow> \<not> f32_signbit y"
proof -
  have x: "bit (y XOR 0x80000000) n \<longleftrightarrow> (if n = 31 then \<not> bit y n else bit y n)" for n
    unfolding bit_xor_iff bit_0x80000000 by auto
  show "f32_exp (y XOR 0x80000000) = f32_exp y"
    unfolding f32_exp_bits by (simp add: x)
  show "f32_mant (y XOR 0x80000000) = f32_mant y"
    unfolding f32_mant_bits by (simp add: x)
  show "f32_signbit (y XOR 0x80000000) \<longleftrightarrow> \<not> f32_signbit y"
    unfolding f32_signbit_iff by (simp add: x)
qed

lemma f32_neg_class:
  "f32_isNaN (y XOR 0x80000000) = f32_isNaN y"
  "f32_isInf (y XOR 0x80000000) = f32_isInf y"
  "f32_units (y XOR 0x80000000) = f32_units y"
  "f32_val (y XOR 0x80000000) = - f32_val y"
  by (simp_all add: f32_isNaN_def f32_isInf_def f32_units_def f32_val_def f32_neg_fields)

lemma f32_sub_as_add:
  assumes "\<not> f32_isInf y"
  shows "f32_sub x y = f32_add x (y XOR 0x80000000)"
  using assms by (simp add: f32_sub_def f32_add_def f32_neg_class f32_neg_fields Let_def)


lemma f32_mant_less: "f32_mant x < 2 ^ 23"
proof -
  have "f32_mant x = take_bit 23 (unat x)"
    unfolding f32_mant_def f32_masks by (simp add: unsigned_take_bit_eq flip: take_bit_eq_mask)
  then show ?thesis using take_bit_nat_less_exp [of 23 "unat x"] by simp
qed

lemma f32_units_upper: "f32_units x < 2 ^ (23 + f32_exp x)"
proof (cases "f32_exp x = 0")
  case True
  then show ?thesis using f32_mant_less [of x] by (simp add: f32_units_def)
next
  case False
  then obtain e where e: "f32_exp x = Suc e" by (cases "f32_exp x") auto
  have "(2 ^ 23 + f32_mant x) * 2 ^ e < (2 ^ 23 + 2 ^ 23) * 2 ^ e"
    using f32_mant_less [of x] by simp
  also have "\<dots> = 2 ^ (23 + Suc e)" by (simp add: power_add)
  finally show ?thesis by (simp add: f32_units_def e)
qed

lemma f32_units_lower: "0 < f32_exp x \<Longrightarrow> 2 ^ (22 + f32_exp x) \<le> f32_units x"
proof -
  assume "0 < f32_exp x"
  then obtain e where e: "f32_exp x = Suc e" by (cases "f32_exp x") auto
  have "(2 :: nat) ^ (22 + Suc e) = 2 ^ 23 * 2 ^ e" by (simp add: power_add)
  also have "\<dots> \<le> (2 ^ 23 + f32_mant x) * 2 ^ e" by simp
  finally show ?thesis by (simp add: f32_units_def e)
qed

lemma f32_units_exp_mono:
  assumes "f32_exp x < f32_exp y"
  shows "f32_units x < f32_units y"
proof -
  have "f32_units x < 2 ^ (23 + f32_exp x)" by (rule f32_units_upper)
  also have "\<dots> \<le> (2 :: nat) ^ (22 + f32_exp y)"
    using assms by (intro power_increasing) simp_all
  also have "\<dots> \<le> f32_units y" using assms by (intro f32_units_lower) simp
  finally show ?thesis .
qed

lemma f32_units_inj:
  assumes "f32_units x = f32_units y"
  shows "f32_exp x = f32_exp y \<and> f32_mant x = f32_mant y"
proof -
  have e: "f32_exp x = f32_exp y"
    using f32_units_exp_mono [of x y] f32_units_exp_mono [of y x] assms
    by (cases "f32_exp x" "f32_exp y" rule: linorder_cases) simp_all
  with assms show ?thesis by (simp add: f32_units_def split: if_splits)
qed

lemma f32_units_zero: "f32_units x = 0 \<longleftrightarrow> f32_isZero x"
  using f32_units_lower [of x] by (auto simp add: f32_isZero_def f32_units_def)

lemma f32_val_inj:
  assumes "f32_val x = f32_val y" and "\<not> (f32_isZero x \<and> f32_isZero y)"
  shows "x = y"
proof -
  have u: "f32_units x = f32_units y"
    using assms(1) by (simp add: f32_val_def split: if_splits)
  have "f32_units x \<noteq> 0"
    using assms(2) u f32_units_zero [of x] f32_units_zero [of y] by auto
  with assms(1) u have "f32_signbit x = f32_signbit y"
    by (simp add: f32_val_def split: if_splits)
  with f32_units_inj [OF u] show ?thesis by (simp add: f32_fields_eq)
qed

subsection \<open>Decoded values\<close>

lemma decode_class:
  "\<not> IsNaN a \<and> \<not> IsInf a \<longrightarrow>
     \<not> f32_isNaN (toFloat32Algorithmic a) \<and> \<not> f32_isInf (toFloat32Algorithmic a) \<and>
     (f32_isZero (toFloat32Algorithmic a) \<longleftrightarrow> IsZero a)"
  apply (rule Float8_cases [where v = a])
  apply (intro conjI TrueI)
  apply (simp_all add: codec_defs)
  done

lemma decode_Neg:
  "\<not> IsZero b \<and> \<not> IsNaN b \<longrightarrow>
     toFloat32Algorithmic (Neg b) = toFloat32Algorithmic b XOR 0x80000000"
  apply (rule Float8_cases [where v = b])
  apply (intro conjI TrueI)
  apply (simp_all add: codec_defs Neg_def)
  done

lemma Neg_class:
  "(IsZero (Neg b) \<longleftrightarrow> IsZero b) \<and> (IsNaN (Neg b) \<longleftrightarrow> IsNaN b) \<and> (IsInf (Neg b) \<longleftrightarrow> IsInf b) \<and>
   (Neg b = PositiveInfinity \<longleftrightarrow> b = NegativeInfinity) \<and>
   (Neg b = NegativeInfinity \<longleftrightarrow> b = PositiveInfinity)"
  apply (rule Float8_cases [where v = b])
  apply (intro conjI TrueI)
  apply (simp_all add: special_defs Neg_def)
  done

lemma decode_inj:
  assumes "\<not> IsNaN a" and "\<not> IsNaN b" and "toFloat32Algorithmic a = toFloat32Algorithmic b"
  shows "a = b"
proof -
  from roundtrip_algorithmic [of a] assms(1)
  have A: "ToFloat8WithMode (toFloat32Algorithmic a) ModeDefault = (a, None)"
    unfolding IsNaN_iff by blast
  from roundtrip_algorithmic [of b] assms(2)
  have B: "ToFloat8WithMode (toFloat32Algorithmic b) ModeDefault = (b, None)"
    unfolding IsNaN_iff by blast
  from A B assms(3) show ?thesis by (metis prod.inject)
qed

subsection \<open>Subtraction and addition of the negation\<close>

lemma finite_sub_as_add:
  assumes "\<not> IsZero b" and "\<not> IsInf b"
  shows "f32_sub x (toFloat32Algorithmic b) = f32_add x (toFloat32Algorithmic (Neg b))"
proof (cases "IsNaN b")
  case True
  then have "IsNaN (Neg b)" by (simp add: Neg_class)
  with True assms show ?thesis
    by (simp add: toFloat32Algorithmic_def Neg_class f32_sub_def f32_add_def f32_isNaN_def
        f32_NaN_def f32_exp_def f32_mant_def)
next
  case False
  with assms have "toFloat32Algorithmic (Neg b) = toFloat32Algorithmic b XOR 0x80000000"
    and "\<not> f32_isInf (toFloat32Algorithmic b)"
    using decode_Neg [of b] decode_class [of b] by simp_all
  then show ?thesis by (simp add: f32_sub_as_add)
qed

text \<open>
  C8, as stated, fails at \<open>a = -0\<close>, \<open>b = +0\<close>: the difference is \<open>-0\<close>, but \<^verbatim>\<open>Neg\<close>
  leaves \<open>+0\<close> unchanged and \<open>-0 + +0\<close> is \<open>+0\<close>.
\<close>

theorem sub_not_add_neg_at_zeros:
  "subAlgorithmic init_globals NegativeZero PositiveZero = NegativeZero \<and>
   addAlgorithmic init_globals NegativeZero (Neg PositiveZero) = PositiveZero \<and>
   NegativeZero \<noteq> PositiveZero"
  by (simp add: subAlgorithmic_def addAlgorithmic_def Neg_def special_defs)

text \<open>
  C8, amended. For every pair of operands other than two zeros of opposite sign,
  \<^verbatim>\<open>subAlgorithmic(a, b)\<close> is \<^verbatim>\<open>addAlgorithmic(a, b.Neg())\<close>, special values
  included; and \<open>-0 - +0\<close> is \<open>-0\<close> while \<open>-0 + Neg(+0)\<close> is \<open>+0\<close>.
\<close>

theorem sub_is_add_neg:
  assumes "conv_ok g"
  shows "(\<not> (IsZero a \<and> IsZero b \<and> a \<noteq> b) \<longrightarrow>
            subAlgorithmic g a b = addAlgorithmic g a (Neg b)) \<and>
         subAlgorithmic g NegativeZero PositiveZero = NegativeZero \<and>
         addAlgorithmic g NegativeZero (Neg PositiveZero) = PositiveZero"
proof (intro conjI impI)
  assume ex: "\<not> (IsZero a \<and> IsZero b \<and> a \<noteq> b)"
  show "subAlgorithmic g a b = addAlgorithmic g a (Neg b)"
  proof (cases "IsZero b")
    case True
    then have "Neg b = b" by (simp add: Neg_def)
    with True ex show ?thesis by (auto simp add: subAlgorithmic_def addAlgorithmic_def)
  next
    case bz: False
    show ?thesis
    proof (cases "IsZero a")
      case True
      with bz show ?thesis by (simp add: subAlgorithmic_def addAlgorithmic_def)
    next
      case az: False
      show ?thesis
      proof (cases "IsInf a \<or> IsInf b")
        case True
        have "a = b \<and> IsInf a \<longleftrightarrow>
              (a = PositiveInfinity \<and> b = PositiveInfinity) \<or> (a = NegativeInfinity \<and> b = NegativeInfinity)"
          by (auto simp add: IsInf_def)
        with True az bz show ?thesis
          by (auto simp add: subAlgorithmic_def addAlgorithmic_def Neg_class)
      next
        case False
        with az bz show ?thesis
          by (simp add: subAlgorithmic_def addAlgorithmic_def Neg_class
              ToFloat32_conv_ok [OF assms] finite_sub_as_add)
      qed
    qed
  qed
next
  show "subAlgorithmic g NegativeZero PositiveZero = NegativeZero"
    by (simp add: subAlgorithmic_def special_defs)
  show "addAlgorithmic g NegativeZero (Neg PositiveZero) = PositiveZero"
    by (simp add: addAlgorithmic_def Neg_def special_defs)
qed

theorem sub_is_add_neg_witness:
  "conv_ok init_globals \<and> \<not> (IsZero 0x44 \<and> IsZero 0x38 \<and> (0x44 :: Float8) \<noteq> 0x38) \<and>
   subAlgorithmic init_globals 0x44 0x38 = addAlgorithmic init_globals 0x44 (Neg 0x38)"
proof -
  have ok: "conv_ok init_globals" by (simp add: conv_ok_def init_globals_def)
  have h: "\<not> (IsZero 0x44 \<and> IsZero 0x38 \<and> (0x44 :: Float8) \<noteq> 0x38)"
    by (simp add: IsZero_def PositiveZero_def NegativeZero_def)
  from sub_is_add_neg [OF ok, of "0x44" "0x38"] ok h show ?thesis by blast
qed

subsection \<open>Minimum and maximum\<close>

lemma Less_finite:
  assumes "conv_ok g" and "\<not> IsNaN a" "\<not> IsNaN b" "\<not> IsInf a" "\<not> IsInf b"
    and "\<not> (IsZero a \<and> IsZero b)"
  shows "Less g a b \<longleftrightarrow> f32_val (toFloat32Algorithmic a) < f32_val (toFloat32Algorithmic b)"
  using assms decode_class [of a] decode_class [of b]
  by (auto simp add: Less_def ToFloat32_conv_ok f32_lt_def)

lemma Less_asym: "conv_ok g \<Longrightarrow> Less g a b \<Longrightarrow> \<not> Less g b a"
proof -
  assume ok: "conv_ok g" and l: "Less g a b"
  from l have n: "\<not> IsNaN a" "\<not> IsNaN b" "\<not> (IsZero a \<and> IsZero b)"
    by (auto simp add: Less_def split: if_splits)
  show ?thesis
  proof (cases "IsInf a \<or> IsInf b")
    case True
    with l n show ?thesis by (auto simp add: Less_def special_defs split: if_splits)
  next
    case False
    with l n ok show ?thesis using Less_finite [of g a b] Less_finite [of g b a] by auto
  qed
qed

lemma Less_connected:
  assumes "conv_ok g" and "\<not> IsNaN a" "\<not> IsNaN b" "\<not> IsInf a" "\<not> IsInf b"
    and "\<not> Less g a b" "\<not> Less g b a"
  shows "a = b \<or> (IsZero a \<and> IsZero b)"
proof (cases "IsZero a \<and> IsZero b")
  case True
  then show ?thesis by simp
next
  case False
  with assms have "f32_val (toFloat32Algorithmic a) = f32_val (toFloat32Algorithmic b)"
    using Less_finite [of g a b] Less_finite [of g b a] by auto
  moreover have "\<not> (f32_isZero (toFloat32Algorithmic a) \<and> f32_isZero (toFloat32Algorithmic b))"
    using False assms(2-5) decode_class [of a] decode_class [of b] by simp
  ultimately have "toFloat32Algorithmic a = toFloat32Algorithmic b" by (rule f32_val_inj)
  with assms(2,3) show ?thesis by (simp add: decode_inj)
qed

text \<open>
  C9, as stated, fails on the two zeros: both \<^verbatim>\<open>Min\<close> and \<^verbatim>\<open>Max\<close> return their second
  operand when neither is less than the other.
\<close>

theorem Min_Max_zeros_not_commutative:
  "Min init_globals PositiveZero NegativeZero = NegativeZero \<and>
   Min init_globals NegativeZero PositiveZero = PositiveZero \<and>
   Max init_globals PositiveZero NegativeZero = NegativeZero \<and>
   Max init_globals NegativeZero PositiveZero = PositiveZero \<and>
   NegativeZero \<noteq> PositiveZero"
  by (simp add: Min_def Max_def Greater_def Less_def special_defs)

text \<open>
  C9, amended. \<^verbatim>\<open>Min\<close> and \<^verbatim>\<open>Max\<close> are commutative as bit patterns on every pair of
  operands other than two zeros of opposite sign; on such a pair each returns its second
  operand. If either operand is NaN the result is NaN.
\<close>

theorem Min_Max_commute:
  assumes "conv_ok g"
  shows "(\<not> (IsZero a \<and> IsZero b \<and> a \<noteq> b) \<longrightarrow>
            Min g a b = Min g b a \<and> Max g a b = Max g b a) \<and>
         (IsZero a \<and> IsZero b \<longrightarrow> Min g a b = b \<and> Max g a b = b) \<and>
         (IsNaN a \<or> IsNaN b \<longrightarrow> IsNaN (Min g a b) \<and> IsNaN (Max g a b))"
proof (intro conjI impI)
  assume "IsNaN a \<or> IsNaN b"
  then show "IsNaN (Min g a b)" "IsNaN (Max g a b)"
    by (simp_all add: Min_def Max_def) (simp_all add: IsNaN_def NaN_def)
next
  assume z: "IsZero a \<and> IsZero b"
  then have "\<not> Less g a b" "\<not> Less g b a" by (auto simp add: Less_def)
  with z show "Min g a b = b" "Max g a b = b"
    by (auto simp add: Min_def Max_def Greater_def special_defs)
next
  assume ex: "\<not> (IsZero a \<and> IsZero b \<and> a \<noteq> b)"
  have conn: "a = b" if "\<not> IsNaN a" "\<not> IsNaN b" "\<not> IsInf a" "\<not> IsInf b"
    "\<not> Less g a b" "\<not> Less g b a"
    using Less_connected [OF assms that] ex by auto
  have inf: "x \<noteq> PositiveInfinity \<Longrightarrow> x \<noteq> NegativeInfinity \<Longrightarrow> \<not> IsInf x" for x
    by (simp add: IsInf_def)
  show "Min g a b = Min g b a"
    using Less_asym [OF assms, of a b] conn inf
    by (auto simp add: Min_def)
  show "Max g a b = Max g b a"
    using Less_asym [OF assms, of a b] conn inf
    by (auto simp add: Max_def Greater_def)
qed

theorem Min_Max_commute_witness:
  "conv_ok init_globals \<and> \<not> (IsZero 0x44 \<and> IsZero 0x38 \<and> (0x44 :: Float8) \<noteq> 0x38) \<and>
   Min init_globals 0x44 0x38 = Min init_globals 0x38 0x44 \<and>
   Max init_globals 0x44 0x38 = Max init_globals 0x38 0x44 \<and>
   IsNaN NaN \<and> IsNaN (Min init_globals NaN 0x38)"
proof -
  have ok: "conv_ok init_globals" by (simp add: conv_ok_def init_globals_def)
  have h: "\<not> (IsZero 0x44 \<and> IsZero 0x38 \<and> (0x44 :: Float8) \<noteq> 0x38)" "IsNaN NaN"
    by (simp_all add: special_defs)
  from Min_Max_commute [OF ok, of "0x44" "0x38"] Min_Max_commute [OF ok, of NaN "0x38"] ok h
  show ?thesis by blast
qed

subsection \<open>Commutativity away from the zero shortcut\<close>

lemma f32_Inf_unique:
  assumes "f32_isInf x" and "f32_isInf y" and "f32_signbit x = f32_signbit y"
  shows "x = y"
  using assms by (intro f32_fields_eq) (simp_all add: f32_isInf_def)

lemma f32_add_commute: "f32_add x y = f32_add y x"
  using f32_Inf_unique [of x y]
  by (auto simp add: f32_add_def Let_def add.commute conj_commute)

lemma f32_mul_commute: "f32_mul x y = f32_mul y x"
proof -
  have s: "(f32_signbit x \<noteq> f32_signbit y) = (f32_signbit y \<noteq> f32_signbit x)" by auto
  show ?thesis
    unfolding f32_mul_def Let_def s mult.commute [of "f32_units x"] disj_commute [of "f32_isNaN x"]
      disj_commute [of "f32_isInf x"] disj_commute [of "f32_isZero x"]
    by (rule refl)
qed

lemma mul_commute: "mulAlgorithmic g a b = mulAlgorithmic g b a"
  by (auto simp add: mulAlgorithmic_def Let_def f32_mul_commute [of "ToFloat32 g a"] mult.commute)

lemma add_commute_except_zeros:
  assumes "\<not> (IsZero a \<and> IsZero b \<and> a \<noteq> b)"
  shows "addAlgorithmic g a b = addAlgorithmic g b a"
  using assms
  by (auto simp add: addAlgorithmic_def f32_add_commute [of "ToFloat32 g a"] IsInf_def)

subsection \<open>The tables in the states the package can reach\<close>

lemma fill_tables_ignores_tables:
  "fill_tables (g\<lparr>addTable := x, subTable := y, mulTable := z, divTable := w\<rparr>) = fill_tables g"
  unfolding fill_tables_eq algorithmic_ignores_tables by (rule refl)

lemma fill_tables_cong:
  assumes "ToFloat32 g = ToFloat32 g'" and "ToFloat8 g = ToFloat8 g'"
  shows "fill_tables g = fill_tables g'"
  unfolding fill_tables_eq addAlgorithmic_def subAlgorithmic_def mulAlgorithmic_def
    divAlgorithmic_def assms
  by (rule refl)

lemma built_entries:
  assumes "tables_built_in m g"
  shows "addTable g = Some ta \<Longrightarrow>
           ta ! table_index a b = addAlgorithmic (g\<lparr>DefaultConversionMode := m\<rparr>) a b"
    and "subTable g = Some ts \<Longrightarrow>
           ts ! table_index a b = subAlgorithmic (g\<lparr>DefaultConversionMode := m\<rparr>) a b"
    and "mulTable g = Some tm \<Longrightarrow>
           tm ! table_index a b = mulAlgorithmic (g\<lparr>DefaultConversionMode := m\<rparr>) a b"
    and "divTable g = Some td \<Longrightarrow>
           td ! table_index a b = divAlgorithmic (g\<lparr>DefaultConversionMode := m\<rparr>) a b"
  using assms fill_tables_nth [of "g\<lparr>DefaultConversionMode := m\<rparr>" a b]
  by (auto simp add: tables_built_in_def split: prod.splits)

lemma tables_built_in_init: "tables_built_in m init_globals"
  by (simp add: tables_built_in_def init_globals_def)

lemma tables_built_in_Enable_fresh:
  assumes "addTable g = None"
  shows "tables_built_in (DefaultConversionMode g) (EnableFastArithmetic g)"
    and "addTable (EnableFastArithmetic g) \<noteq> None"
    and "divTable (EnableFastArithmetic g) \<noteq> None"
    and "DefaultConversionMode (EnableFastArithmetic g) = DefaultConversionMode g"
proof -
  obtain ta ts tm td where T: "fill_tables g = (ta, ts, tm, td)"
    by (cases "fill_tables g") auto
  have E: "EnableFastArithmetic g =
             g\<lparr>addTable := Some ta, subTable := Some ts, mulTable := Some tm, divTable := Some td\<rparr>"
    using assms by (simp add: EnableFastArithmetic_def initArithmeticTables_def T)
  have F: "fill_tables (g\<lparr>addTable := Some ta, subTable := Some ts, mulTable := Some tm,
             divTable := Some td\<rparr>) = (ta, ts, tm, td)"
    unfolding fill_tables_ignores_tables by (rule T)
  show "tables_built_in (DefaultConversionMode g) (EnableFastArithmetic g)"
    unfolding E tables_built_in_def by (simp add: F)
  show "addTable (EnableFastArithmetic g) \<noteq> None" "divTable (EnableFastArithmetic g) \<noteq> None"
    "DefaultConversionMode (EnableFastArithmetic g) = DefaultConversionMode g"
    unfolding E by simp_all
qed

lemma tables_built_in_Enable:
  assumes "tables_built_in m g"
  shows "tables_built_in (if addTable g = None then DefaultConversionMode g else m)
           (EnableFastArithmetic g)"
proof (cases "addTable g = None")
  case True
  then show ?thesis by (simp add: tables_built_in_Enable_fresh)
next
  case False
  then have "EnableFastArithmetic g = g"
    by (simp add: EnableFastArithmetic_def initArithmeticTables_def)
  with False assms show ?thesis by auto
qed

lemma tables_built_in_Disable: "tables_built_in m (DisableFastArithmetic g)"
  by (simp add: tables_built_in_def DisableFastArithmetic_def)

lemma tables_built_in_modes:
  "tables_built_in m (g\<lparr>DefaultConversionMode := m', DefaultArithmeticMode := am\<rparr>) =
     tables_built_in m g"
proof -
  have "fill_tables (g\<lparr>DefaultConversionMode := m', DefaultArithmeticMode := am,
          DefaultConversionMode := m\<rparr>) =
        fill_tables (g\<lparr>DefaultConversionMode := m\<rparr>)"
    by (rule fill_tables_cong) (simp_all add: fun_eq_iff ToFloat32_def ToFloat8_def)
  then show ?thesis unfolding tables_built_in_def by simp
qed

lemma tables_built_in_conversion:
  assumes "conv_ok g" and "c = None \<or> c = Some fill_conversion"
  shows "tables_built_in m (g\<lparr>conversionTable := c\<rparr>) = tables_built_in m g"
proof -
  have ok: "conv_ok (g\<lparr>DefaultConversionMode := m\<rparr>)"
    "conv_ok (g\<lparr>conversionTable := c, DefaultConversionMode := m\<rparr>)"
    using assms by (auto simp add: conv_ok_def)
  have "fill_tables (g\<lparr>conversionTable := c, DefaultConversionMode := m\<rparr>) =
        fill_tables (g\<lparr>DefaultConversionMode := m\<rparr>)"
    by (rule fill_tables_cong)
      (simp_all add: fun_eq_iff ToFloat32_conv_ok [OF ok(1)] ToFloat32_conv_ok [OF ok(2)] ToFloat8_def)
  then show ?thesis by (simp add: tables_built_in_def)
qed

lemma Configure_invariant:
  assumes "conv_ok g" and "tables_built_in m g"
  shows "conv_ok (Configure config g)"
    and "tables_built_in (if cfgEnableFastArithmetic config \<and> addTable g = None
                          then DefaultConversionMode g else m) (Configure config g)"
proof -
  define g1 where "g1 = (if cfgEnableFastArithmetic config then EnableFastArithmetic g
                         else DisableFastArithmetic g)"
  define m1 where "m1 = (if cfgEnableFastArithmetic config \<and> addTable g = None
                         then DefaultConversionMode g else m)"
  have c1: "conversionTable g1 = conversionTable g"
    by (cases "fill_tables g")
      (simp add: g1_def EnableFastArithmetic_def initArithmeticTables_def DisableFastArithmetic_def)
  then have ok1: "conv_ok g1" using assms(1) by (simp add: conv_ok_def)
  have t1: "tables_built_in m1 g1"
    using tables_built_in_Enable [OF assms(2)]
    by (auto simp add: g1_def m1_def tables_built_in_Disable)
  define c where "c = (if cfgEnableFastConversion config
                       then (if conversionTable g1 \<noteq> None then conversionTable g1
                             else Some fill_conversion)
                       else None)"
  have c: "c = None \<or> c = Some fill_conversion"
    using ok1 by (auto simp add: c_def conv_ok_def)
  have g2: "(if cfgEnableFastConversion config then EnableFastConversion g1
             else DisableFastConversion g1) = g1\<lparr>conversionTable := c\<rparr>"
    by (simp add: c_def EnableFastConversion_def initConversionTable_def DisableFastConversion_def)
  have C: "Configure config g = g1\<lparr>conversionTable := c, DefaultConversionMode := DefaultMode config,
             DefaultArithmeticMode := ArithmeticMode config\<rparr>"
    unfolding Configure_def Let_def g1_def [symmetric] g2 by simp
  show "conv_ok (Configure config g)"
    unfolding C using c by (simp add: conv_ok_def)
  have "tables_built_in m1 (g1\<lparr>conversionTable := c\<rparr>)"
    using t1 tables_built_in_conversion [OF ok1 c] by simp
  then show "tables_built_in (if cfgEnableFastArithmetic config \<and> addTable g = None
                          then DefaultConversionMode g else m) (Configure config g)"
    unfolding C m1_def [symmetric] by (simp add: tables_built_in_modes)
qed







subsection \<open>Division through the dispatcher\<close>

lemma DivWithMode_cases:
  assumes "tables_built_in m g"
  shows "DivWithMode g a b mode = divAlgorithmic g a b \<or>
         DivWithMode g a b mode = divAlgorithmic (g\<lparr>DefaultConversionMode := m\<rparr>) a b"
  using built_entries(4) [OF assms, of _ a b]
  by (auto simp add: DivWithMode_def split: option.splits)

text \<open>
  C5. In every state whose tables are absent or built by \<^verbatim>\<open>initArithmeticTables\<close>
  (under any conversion mode \<open>m\<close>), \<^verbatim>\<open>Div\<close>, \<^verbatim>\<open>DivWithMode\<close> in every mode and
  \<^verbatim>\<open>divAlgorithmic\<close> give, for non-NaN operands: NaN for zero by zero and for infinity
  by infinity; an infinity whose sign is the XOR of the operand signs for a nonzero finite
  value by zero and for an infinity by a nonzero finite value; a zero whose sign is the XOR
  of the operand signs for zero by a nonzero finite value and for a finite value by an
  infinity. Finite means neither NaN nor infinite. One divided by negative zero is
  \<open>0xF8\<close>.
\<close>

theorem Div_special_values:
  assumes "tables_built_in m g" and "\<not> IsNaN a" and "\<not> IsNaN b"
  shows "(\<forall>r \<in> {Div g a b, DivWithMode g a b mode, divAlgorithmic g a b}.
           (IsZero a \<and> IsZero b \<longrightarrow> IsNaN r) \<and>
           (IsInf a \<and> IsInf b \<longrightarrow> IsNaN r) \<and>
           (\<not> IsInf a \<and> \<not> IsZero a \<and> IsZero b \<longrightarrow>
              r = (if (a AND SignMask \<noteq> 0) \<noteq> (b AND SignMask \<noteq> 0)
                   then NegativeInfinity else PositiveInfinity)) \<and>
           (IsInf a \<and> \<not> IsInf b \<and> \<not> IsZero b \<longrightarrow>
              r = (if (a AND SignMask \<noteq> 0) \<noteq> (b AND SignMask \<noteq> 0)
                   then NegativeInfinity else PositiveInfinity)) \<and>
           (IsZero a \<and> \<not> IsInf b \<and> \<not> IsZero b \<longrightarrow>
              r = (if (a AND SignMask \<noteq> 0) \<noteq> (b AND SignMask \<noteq> 0)
                   then NegativeZero else PositiveZero)) \<and>
           (\<not> IsInf a \<and> IsInf b \<longrightarrow>
              r = (if (a AND SignMask \<noteq> 0) \<noteq> (b AND SignMask \<noteq> 0)
                   then NegativeZero else PositiveZero))) \<and>
         ToFloat8 g 0x3F800000 = 0x38 \<and>
         Div g (ToFloat8 g 0x3F800000) NegativeZero = 0xF8 \<and>
         DivWithMode g (ToFloat8 g 0x3F800000) NegativeZero mode = 0xF8 \<and>
         divAlgorithmic g (ToFloat8 g 0x3F800000) NegativeZero = 0xF8"
proof -
  let ?gm = "g\<lparr>DefaultConversionMode := m\<rparr>"
  have matrix: "(IsZero a \<and> IsZero b \<longrightarrow> IsNaN r) \<and>
           (IsInf a \<and> IsInf b \<longrightarrow> IsNaN r) \<and>
           (\<not> IsInf a \<and> \<not> IsZero a \<and> IsZero b \<longrightarrow>
              r = (if (a AND SignMask \<noteq> 0) \<noteq> (b AND SignMask \<noteq> 0)
                   then NegativeInfinity else PositiveInfinity)) \<and>
           (IsInf a \<and> \<not> IsInf b \<and> \<not> IsZero b \<longrightarrow>
              r = (if (a AND SignMask \<noteq> 0) \<noteq> (b AND SignMask \<noteq> 0)
                   then NegativeInfinity else PositiveInfinity)) \<and>
           (IsZero a \<and> \<not> IsInf b \<and> \<not> IsZero b \<longrightarrow>
              r = (if (a AND SignMask \<noteq> 0) \<noteq> (b AND SignMask \<noteq> 0)
                   then NegativeZero else PositiveZero)) \<and>
           (\<not> IsInf a \<and> IsInf b \<longrightarrow>
              r = (if (a AND SignMask \<noteq> 0) \<noteq> (b AND SignMask \<noteq> 0)
                   then NegativeZero else PositiveZero))"
    if "r = divAlgorithmic h a b" for r h
    unfolding that using divAlgorithmic_special_values [OF assms(2,3), of h] by blast
  have disp: "DivWithMode g x y md = divAlgorithmic g x y \<or>
              DivWithMode g x y md = divAlgorithmic ?gm x y" for x y md
    by (rule DivWithMode_cases [OF assms(1)])
  have one: "ToFloat8 h 0x3F800000 = 0x38" for h
    by (simp add: ToFloat8_def codec_defs)
  have scen: "divAlgorithmic h 0x38 NegativeZero = 0xF8" for h
    by (simp add: divAlgorithmic_def special_defs)
  have D: "Div g x y = DivWithMode g x y (DefaultArithmeticMode g)" for x y
    by (simp add: Div_def)
  have "\<exists>h. r = divAlgorithmic h a b"
    if "r \<in> {Div g a b, DivWithMode g a b mode, divAlgorithmic g a b}" for r
    using that disp [of a b mode] disp [of a b "DefaultArithmeticMode g"] unfolding D by auto
  then have all: "\<forall>r \<in> {Div g a b, DivWithMode g a b mode, divAlgorithmic g a b}.
           (IsZero a \<and> IsZero b \<longrightarrow> IsNaN r) \<and>
           (IsInf a \<and> IsInf b \<longrightarrow> IsNaN r) \<and>
           (\<not> IsInf a \<and> \<not> IsZero a \<and> IsZero b \<longrightarrow>
              r = (if (a AND SignMask \<noteq> 0) \<noteq> (b AND SignMask \<noteq> 0)
                   then NegativeInfinity else PositiveInfinity)) \<and>
           (IsInf a \<and> \<not> IsInf b \<and> \<not> IsZero b \<longrightarrow>
              r = (if (a AND SignMask \<noteq> 0) \<noteq> (b AND SignMask \<noteq> 0)
                   then NegativeInfinity else PositiveInfinity)) \<and>
           (IsZero a \<and> \<not> IsInf b \<and> \<not> IsZero b \<longrightarrow>
              r = (if (a AND SignMask \<noteq> 0) \<noteq> (b AND SignMask \<noteq> 0)
                   then NegativeZero else PositiveZero)) \<and>
           (\<not> IsInf a \<and> IsInf b \<longrightarrow>
              r = (if (a AND SignMask \<noteq> 0) \<noteq> (b AND SignMask \<noteq> 0)
                   then NegativeZero else PositiveZero))"
    using matrix by blast
  have s1: "DivWithMode g 0x38 NegativeZero md = 0xF8" for md
    using disp [of "0x38" NegativeZero md] scen by auto
  show ?thesis
    using all by (simp add: one s1 scen D)
qed

theorem Div_special_values_witness:
  "tables_built_in ModeDefault (EnableFastArithmetic init_globals) \<and>
   divTable (EnableFastArithmetic init_globals) \<noteq> None \<and>
   \<not> IsNaN 0x38 \<and> \<not> IsNaN NegativeZero \<and> \<not> IsInf 0x38 \<and> \<not> IsZero 0x38 \<and> IsZero NegativeZero \<and>
   Div (EnableFastArithmetic init_globals) 0x38 NegativeZero = NegativeInfinity \<and>
   Div init_globals (ToFloat8 init_globals 0x3F800000) NegativeZero = 0xF8"
proof -
  have n: "addTable init_globals = None" "DefaultConversionMode init_globals = ModeDefault"
    by (simp_all add: init_globals_def)
  have b: "tables_built_in ModeDefault (EnableFastArithmetic init_globals)"
    and p: "divTable (EnableFastArithmetic init_globals) \<noteq> None"
    using tables_built_in_Enable_fresh [OF n(1)] by (simp_all add: n(2))
  have h: "\<not> IsNaN 0x38" "\<not> IsNaN NegativeZero" "\<not> IsInf 0x38" "\<not> IsZero 0x38"
    "IsZero NegativeZero" "(0x38 :: Float8) AND SignMask = 0" "NegativeZero AND SignMask \<noteq> 0"
    by (simp_all add: special_defs)
  from Div_special_values [OF b h(1) h(2), of ArithmeticAuto] h
  have 1: "Div (EnableFastArithmetic init_globals) 0x38 NegativeZero = NegativeInfinity"
    by simp
  have 2: "Div init_globals (ToFloat8 init_globals 0x3F800000) NegativeZero = 0xF8"
    by (rule Div_special_values [OF tables_built_in_init [of ModeDefault] h(1) h(2),
          of ArithmeticAuto, THEN conjunct2, THEN conjunct2, THEN conjunct1])
  from b p h 1 2 show ?thesis by simp
qed

end
